theory Spec2Isabelle
  imports Complex_Main "HOL-Library.Sublist"
begin

section \<open>Python values used by street\_view.py\<close>

text \<open>
  Every exception the program can raise is a value of \<open>error\<close>; a computation that may
  raise returns \<open>error + 'a\<close>, with \<open>Inl\<close> for the exception.
\<close>

datatype error =
    AssertionError
  | ConnectionError
  | JSONDecodeError
  | KeyError
  | IndexError
  | TypeError
  | ValueError
  | OverflowError
  | ZeroDivisionError
  | UnidentifiedImageError
  | AttributeError
  | OSError
  | FloatExponent

definition and_then :: "error + 'a \<Rightarrow> ('a \<Rightarrow> error + 'b) \<Rightarrow> error + 'b" where
  "and_then r f = (case r of Inl e \<Rightarrow> Inl e | Inr v \<Rightarrow> f v)"

subsection \<open>True division of integers\<close>

text \<open>
  Python's \<open>a / b\<close> on two \<open>int\<close>s is a \<open>float\<close>: the binary64 number nearest to the exact
  quotient, ties going to the even significand, \<open>OverflowError\<close> when that number would
  not be finite and \<open>ZeroDivisionError\<close> when \<open>b\<close> is zero. A finite float is represented
  by the rational number it denotes.
\<close>

fun bit_length :: "nat \<Rightarrow> nat" where
  "bit_length n = (if n = 0 then 0 else Suc (bit_length (n div 2)))"

declare bit_length.simps [simp del]

definition pow2 :: "int \<Rightarrow> rat" where
  "pow2 i = (if 0 \<le> i then 2 ^ nat i else 1 / 2 ^ nat (- i))"

definition round_half_even :: "rat \<Rightarrow> int" where
  "round_half_even x =
     (let f = \<lfloor>x\<rfloor>; r = x - of_int f
      in if r < 1 / 2 then f
         else if 1 / 2 < r then f + 1
         else if even f then f else f + 1)"

text \<open>
  The quotient of two positive integers lies in the binade \<open>[2^e, 2^(e+1))\<close>; its
  significand has 53 bits, so the spacing of floats there is \<open>2^(e-52)\<close>, and never less
  than \<open>2^(-1074)\<close> (the subnormal range).
\<close>

definition nat_truediv :: "nat \<Rightarrow> nat \<Rightarrow> error + rat" where
  "nat_truediv a b =
     (let q = of_nat a / of_nat b;
          s = int (bit_length a) - int (bit_length b);
          e = (if pow2 s \<le> q then s else s - 1);
          u = pow2 (max (e - 52) (- 1074));
          r = of_int (round_half_even (q / u)) * u
      in if pow2 1024 \<le> r then Inl OverflowError else Inr r)"

definition int_truediv :: "int \<Rightarrow> int \<Rightarrow> error + rat" where
  "int_truediv a b =
     (if b = 0 then Inl ZeroDivisionError
      else if a = 0 then Inr 0
      else case nat_truediv (nat \<bar>a\<bar>) (nat \<bar>b\<bar>) of
             Inl e \<Rightarrow> Inl e
           | Inr r \<Rightarrow> Inr (if (a < 0) = (b < 0) then r else - r))"

text \<open>\<open>int(x)\<close> of a finite float truncates towards zero; \<open>math.ceil(x)\<close> is an \<open>int\<close>.\<close>

definition int_of_float :: "rat \<Rightarrow> int" where
  "int_of_float x = (if 0 \<le> x then \<lfloor>x\<rfloor> else \<lceil>x\<rceil>)"

definition math_ceil :: "rat \<Rightarrow> int" where
  "math_ceil x = \<lceil>x\<rceil>"

subsection \<open>Parsed JSON\<close>

text \<open>
  What \<open>json.loads\<close> returns: \<open>None\<close>, a \<open>bool\<close>, an \<open>int\<close>, a finite \<open>float\<close>, a \<open>str\<close>,
  a \<open>list\<close> or a \<open>dict\<close> with string keys.
\<close>

datatype json =
    JNull
  | JBool bool
  | JInt int
  | JFloat rat
  | JStr string
  | JArr "json list"
  | JObj "(string \<times> json) list"

text \<open>\<open>v[key]\<close> with a string key: only a \<open>dict\<close> accepts it.\<close>

fun subscript_key :: "json \<Rightarrow> string \<Rightarrow> error + json" where
  "subscript_key (JObj kvs) k = (case map_of kvs k of None \<Rightarrow> Inl KeyError | Some v \<Rightarrow> Inr v)"
| "subscript_key _ k = Inl TypeError"

text \<open>\<open>v[0]\<close>: the first element of a \<open>list\<close>, the first character of a \<open>str\<close>; a \<open>dict\<close>
  parsed from JSON has no integer key.\<close>

fun subscript_zero :: "json \<Rightarrow> error + json" where
  "subscript_zero (JArr []) = Inl IndexError"
| "subscript_zero (JArr (v # vs)) = Inr v"
| "subscript_zero (JStr []) = Inl IndexError"
| "subscript_zero (JStr (c # cs)) = Inr (JStr [c])"
| "subscript_zero (JObj kvs) = Inl KeyError"
| "subscript_zero _ = Inl TypeError"

text \<open>
  \<open>int(v)\<close>. A string is stripped of surrounding whitespace and read as an optional sign
  followed by decimal digits, single underscores allowed between digits (ASCII only).
\<close>

definition is_space :: "char \<Rightarrow> bool" where
  "is_space c = (let n = (of_char c :: nat) in n = 32 \<or> (9 \<le> n \<and> n \<le> 13) \<or> (28 \<le> n \<and> n \<le> 31))"

definition is_digit :: "char \<Rightarrow> bool" where
  "is_digit c = (let n = (of_char c :: nat) in 48 \<le> n \<and> n \<le> 57)"

definition digit_value :: "char \<Rightarrow> nat" where
  "digit_value c = of_char c - 48"

fun digits_value :: "string \<Rightarrow> nat \<Rightarrow> nat option" where
  "digits_value [] acc = Some acc"
| "digits_value (c # cs) acc =
     (if is_digit c then digits_value cs (10 * acc + digit_value c)
      else if c = CHR ''_'' then
        (case cs of [] \<Rightarrow> None
         | d # ds \<Rightarrow> if is_digit d then digits_value cs acc else None)
      else None)"

definition parse_digits :: "string \<Rightarrow> nat option" where
  "parse_digits s =
     (case s of [] \<Rightarrow> None
      | c # cs \<Rightarrow> if is_digit c then digits_value s 0 else None)"

definition strip :: "string \<Rightarrow> string" where
  "strip s = rev (dropWhile is_space (rev (dropWhile is_space s)))"

definition int_of_str :: "string \<Rightarrow> error + int" where
  "int_of_str s =
     (case strip s of
        [] \<Rightarrow> Inl ValueError
      | c # cs \<Rightarrow>
          if c = CHR ''-'' then
            (case parse_digits cs of None \<Rightarrow> Inl ValueError | Some n \<Rightarrow> Inr (- int n))
          else if c = CHR ''+'' then
            (case parse_digits cs of None \<Rightarrow> Inl ValueError | Some n \<Rightarrow> Inr (int n))
          else
            (case parse_digits (c # cs) of None \<Rightarrow> Inl ValueError | Some n \<Rightarrow> Inr (int n)))"

fun py_int :: "json \<Rightarrow> error + int" where
  "py_int (JInt n) = Inr n"
| "py_int (JBool b) = Inr (if b then 1 else 0)"
| "py_int (JFloat x) = Inr (int_of_float x)"
| "py_int (JStr s) = int_of_str s"
| "py_int _ = Inl TypeError"

section \<open>Images\<close>

text \<open>
  A decoded raster as the program uses it: its size, its mode and its pixels. Pixels are
  read as RGB triples, which is what pasting into an RGB image stores.
\<close>

type_synonym rgb = "nat \<times> nat \<times> nat"

record image =
  width :: nat
  height :: nat
  mode :: string
  pixel :: "nat \<Rightarrow> nat \<Rightarrow> rgb"

text \<open>\<open>Image.new(mode, size)\<close>: every pixel is the default colour 0, black.\<close>

definition Image_new :: "string \<Rightarrow> nat \<times> nat \<Rightarrow> image" where
  "Image_new m sz =
     \<lparr>width = fst sz, height = snd sz, mode = m, pixel = (\<lambda>x y. (0, 0, 0))\<rparr>"

text \<open>
  \<open>dst.paste(im, (ox, oy))\<close>: the box is the size of \<open>im\<close>; the part of it that lies outside
  \<open>dst\<close> is clipped, and the size of \<open>dst\<close> never changes.
\<close>

definition paste :: "image \<Rightarrow> image \<Rightarrow> nat \<times> nat \<Rightarrow> image" where
  "paste dst im box =
     dst\<lparr>pixel := (\<lambda>x y.
        if fst box \<le> x \<and> x < fst box + width im \<and> snd box \<le> y \<and> y < snd box + height im
           \<and> x < width dst \<and> y < height dst
        then pixel im (x - fst box) (y - snd box)
        else pixel dst x y)\<rparr>"

definition get_concat_h :: "image \<Rightarrow> image \<Rightarrow> image" where
  "get_concat_h im1 im2 =
     (let dst = Image_new ''RGB'' (width im1 + width im2, height im1);
          dst = paste dst im1 (0, 0);
          dst = paste dst im2 (width im1, 0)
      in dst)"

definition get_concat_v :: "image \<Rightarrow> image \<Rightarrow> image" where
  "get_concat_v im1 im2 =
     (let dst = Image_new ''RGB'' (width im1, height im1 + height im2);
          dst = paste dst im1 (0, 0);
          dst = paste dst im2 (0, height im1)
      in dst)"

section \<open>The outside world\<close>

text \<open>
  A URL is represented by the values the program formats into its fixed template: the
  metadata URL by latitude and longitude, the tile URL by \<open>panoid\<close>, \<open>zoom\<close>, \<open>x\<close> and \<open>y\<close>.
\<close>

datatype url =
    MetaUrl rat rat
  | TileUrl (tile_panoid: json) (tile_zoom: int) (tile_x: nat) (tile_y: nat)

text \<open>
  A response body is represented by what the two decoders of the program make of it:
  \<open>json.loads\<close> and \<open>Image.open\<close>, each \<open>None\<close> when the decoder raises.
\<close>

datatype content = Content (as_json: "json option") (as_image: "image option")

record response =
  status :: nat
  content :: content

datatype printed = Url url | Text string

text \<open>
  What an execution does to the outside, in order. A request is logged with the answer it
  got: \<open>None\<close> when \<open>requests.get\<close> raised.
\<close>

datatype event =
    Get url "response option"
  | Print printed
  | BarOpen int
  | BarUpdate
  | BarClose
  | Save string string image

text \<open>
  The network answers a request as a function of everything that happened before it;
  the disk says whether an image can be written to a path in a format.
\<close>

record world =
  net :: "event list \<Rightarrow> url \<Rightarrow> response option"
  disk :: "string \<Rightarrow> string \<Rightarrow> bool"

section \<open>The session\<close>

record session =
  latitude :: rat
  longitude :: rat
  priv_num_columns :: int
  priv_num_rows :: int
  priv_metadata :: "json option"
  priv_meta_url :: "url option"
  zoom_factor :: int

text \<open>
  A method runs on the session and the trace of events so far and returns its result, or
  the exception it raised, with both as it left them.
\<close>

type_synonym state = "session \<times> event list"

type_synonym 'a prog = "state \<Rightarrow> (error + 'a) \<times> state"

definition ret :: "'a \<Rightarrow> 'a prog" where
  "ret v = (\<lambda>s. (Inr v, s))"

definition raise :: "error \<Rightarrow> 'a prog" where
  "raise e = (\<lambda>s. (Inl e, s))"

definition lift :: "error + 'a \<Rightarrow> 'a prog" where
  "lift r = (\<lambda>s. (r, s))"

definition bind :: "'a prog \<Rightarrow> ('a \<Rightarrow> 'b prog) \<Rightarrow> 'b prog" where
  "bind m f = (\<lambda>s. case m s of (Inl e, s') \<Rightarrow> (Inl e, s') | (Inr v, s') \<Rightarrow> f v s')"

text \<open>\<open>try: m finally: f\<close>, as leaving a \<open>with\<close> block does.\<close>

definition finally_do :: "'a prog \<Rightarrow> unit prog \<Rightarrow> 'a prog" where
  "finally_do m f =
     (\<lambda>s. case m s of (r, s') \<Rightarrow>
        (case f s' of (Inl e, s'') \<Rightarrow> (Inl e, s'') | (Inr u, s'') \<Rightarrow> (r, s'')))"

definition emit :: "event \<Rightarrow> unit prog" where
  "emit ev = (\<lambda>(ss, tr). (Inr (), ss, tr @ [ev]))"

definition self_zoom_factor :: "int prog" where
  "self_zoom_factor = (\<lambda>(ss, tr). (Inr (zoom_factor ss), ss, tr))"

definition requests_get :: "world \<Rightarrow> url \<Rightarrow> response prog" where
  "requests_get w u =
     (\<lambda>(ss, tr).
        let r = net w tr u
        in (case r of None \<Rightarrow> Inl ConnectionError | Some resp \<Rightarrow> Inr resp, ss, tr @ [Get u r]))"

definition json_loads :: "content \<Rightarrow> error + json" where
  "json_loads c = (case as_json c of None \<Rightarrow> Inl JSONDecodeError | Some j \<Rightarrow> Inr j)"

definition Image_open :: "content \<Rightarrow> error + image" where
  "Image_open c = (case as_image c of None \<Rightarrow> Inl UnidentifiedImageError | Some im \<Rightarrow> Inr im)"

subsection \<open>Construction\<close>

definition StreetView_init :: "rat \<Rightarrow> rat \<Rightarrow> int \<Rightarrow> event list \<Rightarrow> (error + session) \<times> event list" where
  "StreetView_init lat lon zf tr =
     (if zf < 6 \<and> zf > 0
      then (Inr \<lparr>latitude = lat, longitude = lon, priv_num_columns = 0, priv_num_rows = 0,
                 priv_metadata = None, priv_meta_url = None, zoom_factor = zf\<rparr>, tr)
      else (Inl AssertionError, tr))"

subsection \<open>Metadata and the values derived from it\<close>

definition meta_url :: "url prog" where
  "meta_url =
     (\<lambda>(ss, tr).
        let ss' = (case priv_meta_url ss of
                     Some u \<Rightarrow> ss
                   | None \<Rightarrow> ss\<lparr>priv_meta_url := Some (MetaUrl (latitude ss) (longitude ss))\<rparr>)
        in (case priv_meta_url ss' of
              None \<Rightarrow> (Inl AttributeError, ss', tr)
            | Some u \<Rightarrow> (Inr u, ss', tr @ [Print (Url u)])))"

definition is_dict :: "json option \<Rightarrow> bool" where
  "is_dict c = (case c of Some (JObj kvs) \<Rightarrow> True | _ \<Rightarrow> False)"

definition set_metadata :: "json \<Rightarrow> unit prog" where
  "set_metadata j = (\<lambda>(ss, tr). (Inr (), ss\<lparr>priv_metadata := Some j\<rparr>, tr))"

definition metadata :: "world \<Rightarrow> json prog" where
  "metadata w =
     (\<lambda>(ss, tr).
        (if \<not> is_dict (priv_metadata ss)
         then bind meta_url (\<lambda>u.
              bind (requests_get w u) (\<lambda>resp.
              bind (lift (json_loads (content resp))) (\<lambda>j.
              bind (set_metadata j) (\<lambda>_. ret j))))
         else (case priv_metadata ss of None \<Rightarrow> raise AttributeError | Some j \<Rightarrow> ret j))
        (ss, tr))"

definition image_height_of :: "json \<Rightarrow> error + int" where
  "image_height_of md =
     and_then (subscript_key md ''Data'') (\<lambda>d. and_then (subscript_key d ''image_height'') py_int)"

definition image_width_of :: "json \<Rightarrow> error + int" where
  "image_width_of md =
     and_then (subscript_key md ''Data'') (\<lambda>d. and_then (subscript_key d ''image_width'') py_int)"

definition pano_id_of :: "json \<Rightarrow> error + json" where
  "pano_id_of md =
     and_then (subscript_key md ''Links'') (\<lambda>l. and_then (subscript_zero l) (\<lambda>l0.
       subscript_key l0 ''panoId''))"

definition original_height :: "world \<Rightarrow> int prog" where
  "original_height w = bind (metadata w) (\<lambda>md. lift (image_height_of md))"

definition original_width :: "world \<Rightarrow> int prog" where
  "original_width w = bind (metadata w) (\<lambda>md. lift (image_width_of md))"

definition pano_id :: "world \<Rightarrow> json prog" where
  "pano_id w = bind (metadata w) (\<lambda>md. lift (pano_id_of md))"

text \<open>
  \<open>int(original / (2 ** (5 - zoom_factor)))\<close>. The constructor admits \<open>zoom_factor\<close> from 1
  to 5, for which the exponent is not negative and the power is an \<open>int\<close>; a negative
  exponent would make it a \<open>float\<close>, which is outside this model and reported as
  \<open>FloatExponent\<close>.
\<close>

definition scaled :: "int \<Rightarrow> int \<Rightarrow> error + int" where
  "scaled original zf =
     (if 5 - zf < 0 then Inl FloatExponent
      else and_then (int_truediv original (2 ^ nat (5 - zf))) (\<lambda>q. Inr (int_of_float q)))"

definition output_width :: "world \<Rightarrow> int prog" where
  "output_width w =
     bind (original_width w) (\<lambda>ow. bind self_zoom_factor (\<lambda>zf. lift (scaled ow zf)))"

definition output_height :: "world \<Rightarrow> int prog" where
  "output_height w =
     bind (original_height w) (\<lambda>oh. bind self_zoom_factor (\<lambda>zf. lift (scaled oh zf)))"

definition tiles_across :: "int \<Rightarrow> error + int" where
  "tiles_across output = and_then (int_truediv output 512) (\<lambda>q. Inr (math_ceil q))"

definition num_rows :: "world \<Rightarrow> int prog" where
  "num_rows w =
     bind self_zoom_factor (\<lambda>zf.
       if zf = 2
       then bind (output_height w) (\<lambda>oh. bind (lift (tiles_across oh)) (\<lambda>n. ret (n + 1)))
       else bind (output_height w) (\<lambda>oh. lift (tiles_across oh)))"

definition num_columns :: "world \<Rightarrow> int prog" where
  "num_columns w = bind (output_width w) (\<lambda>ow. lift (tiles_across ow))"

subsection \<open>The derived values as functions of the metadata\<close>

text \<open>What the accessors compute from a metadata value and a zoom factor.\<close>

definition output_height_of :: "json \<Rightarrow> int \<Rightarrow> error + int" where
  "output_height_of md zf = and_then (image_height_of md) (\<lambda>oh. scaled oh zf)"

definition output_width_of :: "json \<Rightarrow> int \<Rightarrow> error + int" where
  "output_width_of md zf = and_then (image_width_of md) (\<lambda>ow. scaled ow zf)"

definition num_rows_of :: "json \<Rightarrow> int \<Rightarrow> error + int" where
  "num_rows_of md zf =
     and_then (output_height_of md zf) (\<lambda>oh.
       and_then (tiles_across oh) (\<lambda>n. Inr (if zf = 2 then n + 1 else n)))"

definition num_columns_of :: "json \<Rightarrow> int \<Rightarrow> error + int" where
  "num_columns_of md zf = and_then (output_width_of md zf) tiles_across"

subsection \<open>Download\<close>

text \<open>The body of the inner loop: fetch the tile at \<open>(column, row)\<close> and append it to the row.\<close>

definition fetch_tile :: "world \<Rightarrow> nat \<Rightarrow> nat \<Rightarrow> image option \<Rightarrow> image option prog" where
  "fetch_tile w row column cur_slice =
     bind (pano_id w) (\<lambda>p.
     bind self_zoom_factor (\<lambda>zf.
     bind (requests_get w (TileUrl p zf column row)) (\<lambda>resp.
     bind (case cur_slice of
             None \<Rightarrow> lift (Image_open (content resp))
           | Some cs \<Rightarrow>
               bind (lift (Image_open (content resp))) (\<lambda>append_slice.
                 ret (get_concat_h cs append_slice))) (\<lambda>cur.
     bind (emit BarUpdate) (\<lambda>_. ret (Some cur))))))"

fun columns_loop :: "world \<Rightarrow> nat \<Rightarrow> nat list \<Rightarrow> image option \<Rightarrow> image option prog" where
  "columns_loop w row [] cur_slice = ret cur_slice"
| "columns_loop w row (column # cols) cur_slice =
     bind (fetch_tile w row column cur_slice) (\<lambda>cur. columns_loop w row cols cur)"

text \<open>The head of the outer loop's body: a finished row goes below what is assembled.\<close>

definition merge_row :: "image option \<Rightarrow> image option \<Rightarrow> image option \<times> image option" where
  "merge_row IMAGE cur_slice =
     (case cur_slice of
        None \<Rightarrow> (IMAGE, cur_slice)
      | Some cs \<Rightarrow>
          (case IMAGE of None \<Rightarrow> (Some cs, None) | Some im \<Rightarrow> (Some (get_concat_v im cs), None)))"

definition range :: "int \<Rightarrow> nat list" where
  "range n = [0..<nat n]"

fun rows_loop ::
  "world \<Rightarrow> nat list \<Rightarrow> image option \<Rightarrow> image option \<Rightarrow> (image option \<times> image option) prog" where
  "rows_loop w [] IMAGE cur_slice = ret (IMAGE, cur_slice)"
| "rows_loop w (row # rows) IMAGE cur_slice =
     (case merge_row IMAGE cur_slice of
        (IMAGE', cur) \<Rightarrow>
          bind (num_columns w) (\<lambda>nc.
          bind (columns_loop w row (range nc) cur) (\<lambda>cur'.
          rows_loop w rows IMAGE' cur')))"

definition image_save :: "world \<Rightarrow> image option \<Rightarrow> string \<Rightarrow> string \<Rightarrow> unit prog" where
  "image_save w IMAGE output_path output_type =
     (case IMAGE of
        None \<Rightarrow> raise AttributeError
      | Some im \<Rightarrow>
          if disk w output_path output_type then emit (Save output_path output_type im)
          else raise OSError)"

definition download :: "world \<Rightarrow> string \<Rightarrow> string \<Rightarrow> unit prog" where
  "download w output_path output_type =
     bind (num_rows w) (\<lambda>nr.
     bind (num_columns w) (\<lambda>nc.
     bind (emit (BarOpen (nr * nc))) (\<lambda>_.
     bind (finally_do
             (bind (num_rows w) (\<lambda>n.
              bind (rows_loop w (range n) None None) (\<lambda>(IMAGE, cur_slice).
              ret (case IMAGE of None \<Rightarrow> cur_slice | Some im \<Rightarrow> Some im))))
             (emit BarClose)) (\<lambda>IMAGE.
     bind (emit (Print (Text (''Saving image to '' @ output_path)))) (\<lambda>_.
     bind (image_save w IMAGE output_path output_type) (\<lambda>_.
     emit (Print (Text ''Image saved!''))))))))"

section \<open>Observations on traces\<close>

text \<open>The URL a metadata request of the session goes to.\<close>

definition fetched_url :: "session \<Rightarrow> url" where
  "fetched_url ss =
     (case priv_meta_url ss of Some u \<Rightarrow> u | None \<Rightarrow> MetaUrl (latitude ss) (longitude ss))"

fun tile_requests :: "event list \<Rightarrow> url list" where
  "tile_requests [] = []"
| "tile_requests (Get (TileUrl p z c r) a # es) = TileUrl p z c r # tile_requests es"
| "tile_requests (e # es) = tile_requests es"

fun meta_requests :: "event list \<Rightarrow> url list" where
  "meta_requests [] = []"
| "meta_requests (Get (MetaUrl la lo) a # es) = MetaUrl la lo # meta_requests es"
| "meta_requests (e # es) = meta_requests es"

fun requests :: "event list \<Rightarrow> url list" where
  "requests [] = []"
| "requests (Get u a # es) = u # requests es"
| "requests (e # es) = requests es"

fun saved :: "event list \<Rightarrow> (string \<times> string \<times> nat \<times> nat) list" where
  "saved [] = []"
| "saved (Save path fmt im # es) = (path, fmt, width im, height im) # saved es"
| "saved (e # es) = saved es"

text \<open>A tile request that \<open>requests.get\<close> raised on, or whose body \<open>Image.open\<close> rejects.\<close>

fun fetch_failed :: "event \<Rightarrow> bool" where
  "fetch_failed (Get (TileUrl p z c r) None) = True"
| "fetch_failed (Get (TileUrl p z c r) (Some resp)) = (as_image (content resp) = None)"
| "fetch_failed e = False"

text \<open>The \<open>panoid\<close> the tile URLs carry, and whether reading it raises.\<close>

definition session_pano :: "json \<Rightarrow> json" where
  "session_pano md = (case pano_id_of md of Inr p \<Rightarrow> p | Inl e \<Rightarrow> JNull)"

definition pano_fails :: "json \<Rightarrow> bool" where
  "pano_fails md = (case pano_id_of md of Inr p \<Rightarrow> False | Inl e \<Rightarrow> True)"

text \<open>
  How a stretch of the download loops ends, against the tile URLs it is to request: it
  saves nothing and asks for no metadata; when it returns, it has requested exactly those
  URLs and no fetch failed; when it raises, it has requested the first few of them, and a
  fetch failed unless reading the \<open>panoid\<close> raised.
\<close>

definition loop_outcome :: "bool \<Rightarrow> url list \<Rightarrow> error + 'a \<Rightarrow> event list \<Rightarrow> bool" where
  "loop_outcome pf expected res new =
     (saved new = [] \<and> meta_requests new = [] \<and>
      (case res of
         Inr v \<Rightarrow> tile_requests new = expected \<and> \<not> list_ex fetch_failed new
       | Inl e \<Rightarrow> prefix (tile_requests new) expected \<and> (list_ex fetch_failed new \<or> pf)))"

text \<open>A server every tile of which decodes to an image of one size.\<close>

definition serves_tiles :: "world \<Rightarrow> nat \<Rightarrow> nat \<Rightarrow> bool" where
  "serves_tiles w tw th =
     (\<forall>h p z c r. \<exists>resp im. net w h (TileUrl p z c r) = Some resp
        \<and> as_image (content resp) = Some im \<and> width im = tw \<and> height im = th)"

definition dims :: "image option \<Rightarrow> (nat \<times> nat) option" where
  "dims im = map_option (\<lambda>i. (width i, height i)) im"

text \<open>The tile URLs of a grid, row by row.\<close>

definition grid_urls :: "json \<Rightarrow> int \<Rightarrow> nat \<Rightarrow> nat \<Rightarrow> url list" where
  "grid_urls p zf nr nc = concat (map (\<lambda>row. map (\<lambda>column. TileUrl p zf column row) [0..<nc]) [0..<nr])"

section \<open>Reading accessors repeatedly\<close>

datatype accessor =
    PanoId | OriginalWidth | OriginalHeight | OutputWidth | OutputHeight | NumRows | NumColumns

datatype pyvalue = PyJson json | PyInt int

definition wrap :: "'a prog \<Rightarrow> ('a \<Rightarrow> pyvalue) \<Rightarrow> pyvalue prog" where
  "wrap m f = bind m (\<lambda>v. ret (f v))"

fun read :: "world \<Rightarrow> accessor \<Rightarrow> pyvalue prog" where
  "read w PanoId = wrap (pano_id w) PyJson"
| "read w OriginalWidth = wrap (original_width w) PyInt"
| "read w OriginalHeight = wrap (original_height w) PyInt"
| "read w OutputWidth = wrap (output_width w) PyInt"
| "read w OutputHeight = wrap (output_height w) PyInt"
| "read w NumRows = wrap (num_rows w) PyInt"
| "read w NumColumns = wrap (num_columns w) PyInt"

text \<open>
  A caller reading accessors one after the other, going on after an exception; the
  results are collected, the state is threaded through.
\<close>

fun reads :: "world \<Rightarrow> accessor list \<Rightarrow> state \<Rightarrow> (error + pyvalue) list \<times> state" where
  "reads w [] s = ([], s)"
| "reads w (a # as) s =
     (case read w a s of (r, s') \<Rightarrow> (case reads w as s' of (rs, s'') \<Rightarrow> (r # rs, s'')))"

text \<open>The value an accessor has on a metadata value and a zoom factor.\<close>

fun value_of :: "accessor \<Rightarrow> json \<Rightarrow> int \<Rightarrow> error + pyvalue" where
  "value_of PanoId md zf = and_then (pano_id_of md) (\<lambda>v. Inr (PyJson v))"
| "value_of OriginalWidth md zf = and_then (image_width_of md) (\<lambda>v. Inr (PyInt v))"
| "value_of OriginalHeight md zf = and_then (image_height_of md) (\<lambda>v. Inr (PyInt v))"
| "value_of OutputWidth md zf = and_then (output_width_of md zf) (\<lambda>v. Inr (PyInt v))"
| "value_of OutputHeight md zf = and_then (output_height_of md zf) (\<lambda>v. Inr (PyInt v))"
| "value_of NumRows md zf = and_then (num_rows_of md zf) (\<lambda>v. Inr (PyInt v))"
| "value_of NumColumns md zf = and_then (num_columns_of md zf) (\<lambda>v. Inr (PyInt v))"

section \<open>Example worlds\<close>

definition example_metadata :: "string \<Rightarrow> string \<Rightarrow> json" where
  "example_metadata iw ih =
     JObj [(''Data'', JObj [(''image_width'', JStr iw), (''image_height'', JStr ih)]),
           (''Links'', JArr [JObj [(''panoId'', JStr ''X'')]])]"

definition stub_tile :: image where
  "stub_tile = Image_new ''RGB'' (512, 512)"

definition reply :: "nat \<Rightarrow> json option \<Rightarrow> image option \<Rightarrow> response option" where
  "reply st j im = Some \<lparr>status = st, content = Content j im\<rparr>"

text \<open>A server that answers the metadata request with \<open>md\<close> and every tile request with a
  512 by 512 tile, with HTTP status \<open>st\<close>.\<close>

definition tile_world :: "json \<Rightarrow> nat \<Rightarrow> world" where
  "tile_world md st =
     \<lparr>net = (\<lambda>h u. case u of MetaUrl la lo \<Rightarrow> reply 200 (Some md) None
                          | TileUrl p z c r \<Rightarrow> reply st None (Some stub_tile)),
      disk = (\<lambda>path fmt. True)\<rparr>"

text \<open>A network on which every request raises.\<close>

definition dead_world :: world where
  "dead_world = \<lparr>net = (\<lambda>h u. None), disk = (\<lambda>path fmt. True)\<rparr>"

text \<open>A server whose body is a JSON number that changes with every request.\<close>

definition counting_world :: world where
  "counting_world =
     \<lparr>net = (\<lambda>h u. reply 200 (Some (JInt (int (length h)))) None), disk = (\<lambda>path fmt. True)\<rparr>"

text \<open>Small images to concatenate: a black pixel and a white 2 by 2 block.\<close>

definition black_pixel :: image where
  "black_pixel = Image_new ''RGB'' (1, 1)"

definition white_block :: image where
  "white_block = \<lparr>width = 2, height = 2, mode = ''RGB'', pixel = (\<lambda>x y. (255, 255, 255))\<rparr>"

definition new_session :: "int \<Rightarrow> session" where
  "new_session zf =
     \<lparr>latitude = 40, longitude = - 75, priv_num_columns = 0, priv_num_rows = 0,
      priv_metadata = None, priv_meta_url = None, zoom_factor = zf\<rparr>"

section \<open>Exactness of the float arithmetic on small integers\<close>

lemma bit_length_bounds:
  "0 < n \<Longrightarrow> 2 ^ (bit_length n - 1) \<le> n \<and> n < 2 ^ bit_length n"
proof (induction n rule: bit_length.induct)
  case (1 n)
  show ?case
  proof (cases "n div 2 = 0")
    case True
    with 1 have "n = 1" by (simp add: div_eq_0_iff) 
    then show ?thesis by (simp add: bit_length.simps [of "Suc 0"] bit_length.simps [of 0])
  next
    case False
    then have pos: "0 < n div 2" by simp
    from 1 have n0: "n \<noteq> 0" by simp
    from 1(1) [OF n0 pos] have ih: "2 ^ (bit_length (n div 2) - 1) \<le> n div 2" "n div 2 < 2 ^ bit_length (n div 2)"
      by simp_all
    have bl: "bit_length n = Suc (bit_length (n div 2))" using n0 by (simp add: bit_length.simps [of n])
    have bpos: "0 < bit_length (n div 2)" using pos by (simp add: bit_length.simps [of "n div 2"])
    then obtain m where m: "bit_length (n div 2) = Suc m" by (cases "bit_length (n div 2)") simp_all
    from ih m have "2 ^ m \<le> n div 2" "n div 2 < 2 * 2 ^ m" by simp_all
    then have "2 * 2 ^ m \<le> n" "n < 2 * (2 * 2 ^ m)" by linarith+
    then show ?thesis by (simp add: bl m)
  qed
qed

lemma bit_length_pow2: "bit_length (2 ^ k) = Suc k"
  by (induction k) (simp_all add: bit_length.simps [of "Suc 0"] bit_length.simps [of 0] bit_length.simps [of "2 * _"])

lemma pow2_diff: "pow2 (int m - int n) = 2 ^ m / 2 ^ n"
proof (cases "n \<le> m")
  case True
  then have "pow2 (int m - int n) = 2 ^ (m - n)" by (simp add: pow2_def nat_diff_distrib')
  then show ?thesis using True by (simp add: power_diff)
next
  case False
  then have "pow2 (int m - int n) = 1 / 2 ^ (n - m)" by (simp add: pow2_def nat_diff_distrib')
  moreover have "(2::rat) ^ n = 2 ^ (n - m) * 2 ^ m" using False by (simp flip: power_add)
  ultimately show ?thesis by simp
qed

lemma round_half_even_of_int: "round_half_even (of_int n) = n"
  by (simp add: round_half_even_def)

lemma rescale_exact:
  fixes x :: rat
  assumes "L \<le> p"
  shows "(x / 2 ^ k) / (2 ^ L / 2 ^ (p + k)) = x * 2 ^ (p - L)"
proof -
  have "(2::rat) ^ (p + k) = 2 ^ (p - L) * 2 ^ L * 2 ^ k"
    using assms by (simp flip: power_add)
  then show ?thesis by simp
qed

lemma nat_truediv_exact:
  assumes "0 < a" "a < 2 ^ 53" "k \<le> 1000"
  shows "nat_truediv a (2 ^ k) = Inr (of_nat a / 2 ^ k)"
proof -
  define L where "L = bit_length a"
  from bit_length_bounds [OF assms(1)] have lo: "2 ^ (L - 1) \<le> a" and hi: "a < 2 ^ L"
    by (simp_all add: L_def)
  have Lpos: "0 < L" using assms(1) by (simp add: L_def bit_length.simps [of a])
  have L53: "L \<le> 53"
  proof (rule ccontr)
    assume "\<not> L \<le> 53"
    then have "53 \<le> L - 1" by simp
    then have "(2::nat) ^ 53 \<le> 2 ^ (L - 1)" by (rule power_increasing) simp
    with lo assms(2) show False by simp
  qed
  define q :: rat where "q = of_nat a / 2 ^ k"
  have s: "int L - int (Suc k) = int (L - 1) - int k" using Lpos by simp
  have e: "pow2 (int L - int (Suc k)) \<le> q"
  proof -
    have "(2::rat) ^ (L - 1) \<le> of_nat a" using lo
      by (metis of_nat_le_iff of_nat_numeral of_nat_power)
    then show ?thesis unfolding s pow2_diff q_def by (simp add: divide_right_mono)
  qed
  have m: "max (int L - int (Suc k) - 52) (- 1074) = int L - int (53 + k)"
    using assms(3) by simp
  have qu: "q / pow2 (int L - int (53 + k)) = of_int (int (a * 2 ^ (53 - L)))"
    unfolding pow2_diff q_def rescale_exact [OF L53] by simp
  have r: "of_int (round_half_even (q / pow2 (int L - int (53 + k)))) * pow2 (int L - int (53 + k)) = q"
    unfolding qu round_half_even_of_int unfolding qu [symmetric] by (simp add: pow2_def)
  have small: "\<not> pow2 1024 \<le> q"
  proof -
    have "of_nat a < (2::rat) ^ 53" using assms(2) by (metis of_nat_less_iff of_nat_numeral of_nat_power)
    moreover have "(1::rat) \<le> 2 ^ k" by simp
    then have "of_nat a / (2::rat) ^ k \<le> of_nat a / 1"
      by (intro divide_left_mono) simp_all
    ultimately have "q < 2 ^ 53" unfolding q_def by simp
    moreover have "(2::rat) ^ 53 \<le> 2 ^ 1024" by (rule power_increasing) simp_all
    ultimately show ?thesis by (simp add: pow2_def)
  qed
  show ?thesis
    unfolding nat_truediv_def Let_def bit_length_pow2 L_def [symmetric]
    using e m r small by (simp add: q_def)
qed


lemma int_truediv_exact:
  assumes "0 \<le> a" "a < 2 ^ 53" "k \<le> 1000"
  shows "int_truediv a (2 ^ k) = Inr (of_int a / 2 ^ k)"
proof (cases "a = 0")
  case True
  then show ?thesis by (simp add: int_truediv_def)
next
  case False
  with assms have "0 < nat a" "nat a < 2 ^ 53" by simp_all
  from nat_truediv_exact [OF this assms(3)] assms(1) False show ?thesis
    by (simp add: int_truediv_def nat_power_eq)
qed

lemma scaled_exact:
  assumes "0 \<le> a" "a < 2 ^ 53" "0 < zf" "zf < 6"
  shows "scaled a zf = Inr (a div 2 ^ nat (5 - zf))"
proof -
  have "int_truediv a (2 ^ nat (5 - zf)) = Inr (of_int a / 2 ^ nat (5 - zf))"
    using assms by (intro int_truediv_exact) simp_all
  moreover have "\<lfloor>(of_int a :: rat) / 2 ^ nat (5 - zf)\<rfloor> = a div 2 ^ nat (5 - zf)"
    using floor_divide_of_int_eq [of a "2 ^ nat (5 - zf)", where ?'a = rat] by simp
  ultimately show ?thesis using assms by (simp add: scaled_def and_then_def int_of_float_def)
qed

lemma tiles_across_exact:
  assumes "0 \<le> a" "a < 2 ^ 53"
  shows "tiles_across a = Inr \<lceil>(of_int a :: rat) / 512\<rceil>"
proof -
  have "int_truediv a (2 ^ 9) = Inr (of_int a / 2 ^ 9)"
    using assms by (intro int_truediv_exact) simp_all
  then show ?thesis by (simp add: tiles_across_def and_then_def math_ceil_def)
qed

section \<open>Running programs\<close>

lemma bind_apply:
  "bind m f s = (case m s of (Inl e, s') \<Rightarrow> (Inl e, s') | (Inr v, s') \<Rightarrow> f v s')"
  by (simp add: bind_def)

lemma bind_Inr: "m s = (Inr v, s') \<Longrightarrow> bind m f s = f v s'"
  by (simp add: bind_def)

lemma bind_Inl: "m s = (Inl e, s') \<Longrightarrow> bind m f s = (Inl e, s')"
  by (simp add: bind_def)

lemma metadata_cached:
  "priv_metadata ss = Some (JObj kvs) \<Longrightarrow> metadata w (ss, tr) = (Inr (JObj kvs), ss, tr)"
  by (simp add: metadata_def is_dict_def ret_def)

lemma metadata_fetch:
  assumes "\<not> is_dict (priv_metadata ss)"
  shows "metadata w (ss, tr) =
     (let u = fetched_url ss;
          ss1 = ss\<lparr>priv_meta_url := Some u\<rparr>;
          tr1 = tr @ [Print (Url u)];
          r = net w tr1 u
      in case r of
           None \<Rightarrow> (Inl ConnectionError, ss1, tr1 @ [Get u r])
         | Some resp \<Rightarrow>
             (case as_json (content resp) of
                None \<Rightarrow> (Inl JSONDecodeError, ss1, tr1 @ [Get u r])
              | Some j \<Rightarrow> (Inr j, ss1\<lparr>priv_metadata := Some j\<rparr>, tr1 @ [Get u r])))"
  using assms
  by (cases "priv_meta_url ss")
     (simp_all add: metadata_def meta_url_def bind_def requests_get_def lift_def json_loads_def
        set_metadata_def ret_def fetched_url_def Let_def split: option.splits)

lemma metadata_frame:
  assumes "metadata w (ss, tr) = (r, ss', tr')"
  shows "latitude ss' = latitude ss \<and> longitude ss' = longitude ss
     \<and> zoom_factor ss' = zoom_factor ss
     \<and> priv_num_columns ss' = priv_num_columns ss \<and> priv_num_rows ss' = priv_num_rows ss"
proof (cases "is_dict (priv_metadata ss)")
  case True
  then obtain kvs where "priv_metadata ss = Some (JObj kvs)"
    by (auto simp: is_dict_def split: option.splits json.splits)
  from metadata_cached [OF this] assms show ?thesis by simp
next
  case False
  from metadata_fetch [OF this, of w tr] assms show ?thesis
    by (auto simp: Let_def split: option.splits)
qed

lemma metadata_zoom: "metadata w s = (r, s') \<Longrightarrow> zoom_factor (fst s') = zoom_factor (fst s)"
  using metadata_frame [of w "fst s" "snd s" r "fst s'" "snd s'"] by simp

lemma original_width_eq:
  "original_width w s =
     (case metadata w s of
        (Inl e, s') \<Rightarrow> (Inl e, s')
      | (Inr md, s') \<Rightarrow> (image_width_of md, s'))"
  by (simp add: original_width_def bind_def lift_def split: prod.splits sum.splits)

lemma original_height_eq:
  "original_height w s =
     (case metadata w s of
        (Inl e, s') \<Rightarrow> (Inl e, s')
      | (Inr md, s') \<Rightarrow> (image_height_of md, s'))"
  by (simp add: original_height_def bind_def lift_def split: prod.splits sum.splits)

lemma pano_id_eq:
  "pano_id w s =
     (case metadata w s of
        (Inl e, s') \<Rightarrow> (Inl e, s')
      | (Inr md, s') \<Rightarrow> (pano_id_of md, s'))"
  by (simp add: pano_id_def bind_def lift_def split: prod.splits sum.splits)

lemma output_width_eq:
  "output_width w s =
     (case metadata w s of
        (Inl e, s') \<Rightarrow> (Inl e, s')
      | (Inr md, s') \<Rightarrow> (output_width_of md (zoom_factor (fst s')), s'))"
  by (simp add: output_width_def original_width_eq bind_def lift_def self_zoom_factor_def
        output_width_of_def and_then_def split: prod.splits sum.splits)

lemma output_height_eq:
  "output_height w s =
     (case metadata w s of
        (Inl e, s') \<Rightarrow> (Inl e, s')
      | (Inr md, s') \<Rightarrow> (output_height_of md (zoom_factor (fst s')), s'))"
  by (simp add: output_height_def original_height_eq bind_def lift_def self_zoom_factor_def
        output_height_of_def and_then_def split: prod.splits sum.splits)

lemma num_columns_eq:
  "num_columns w s =
     (case metadata w s of
        (Inl e, s') \<Rightarrow> (Inl e, s')
      | (Inr md, s') \<Rightarrow> (num_columns_of md (zoom_factor (fst s')), s'))"
  by (simp add: num_columns_def output_width_eq bind_def lift_def
        num_columns_of_def and_then_def split: prod.splits sum.splits)

lemma num_rows_eq:
  "num_rows w s =
     (case metadata w s of
        (Inl e, s') \<Rightarrow> (Inl e, s')
      | (Inr md, s') \<Rightarrow> (num_rows_of md (zoom_factor (fst s')), s'))"
proof -
  obtain r s' where m: "metadata w s = (r, s')" by (cases "metadata w s")
  from metadata_zoom [OF m] have z: "zoom_factor (fst s') = zoom_factor (fst s)" .
  show ?thesis
    using m z
    by (cases s)
       (auto simp: num_rows_def output_height_eq bind_def lift_def ret_def self_zoom_factor_def
          num_rows_of_def and_then_def split: prod.splits sum.splits)
qed

lemma read_eq:
  "read w a s =
     (case metadata w s of
        (Inl e, s') \<Rightarrow> (Inl e, s')
      | (Inr md, s') \<Rightarrow> (value_of a md (zoom_factor (fst s')), s'))"
  by (cases a)
     (auto simp: wrap_def bind_def ret_def and_then_def pano_id_eq original_width_eq
        original_height_eq output_width_eq output_height_eq num_rows_eq num_columns_eq
        split: prod.splits sum.splits)

section \<open>Evaluating the accessors on a fresh session\<close>

lemma floor_rat_numeral: "\<lfloor>(numeral a :: rat) / numeral b\<rfloor> = numeral a div numeral b"
  using floor_divide_of_int_eq [of "numeral a" "numeral b", where ?'a = rat] by simp

lemma metadata_tile_world:
  "metadata (tile_world md st) (new_session zf, []) =
     (Inr md,
      (new_session zf)\<lparr>priv_meta_url := Some (MetaUrl 40 (- 75)), priv_metadata := Some md\<rparr>,
      [Print (Url (MetaUrl 40 (- 75))), Get (MetaUrl 40 (- 75)) (reply 200 (Some md) None)])"
  by (simp add: metadata_fetch is_dict_def new_session_def fetched_url_def tile_world_def
        reply_def Let_def)

lemma int_of_str_16384: "int_of_str ''16384'' = Inr 16384"
  by (simp add: int_of_str_def strip_def is_space_def parse_digits_def is_digit_def
        digit_value_def Let_def)

lemma int_of_str_8192: "int_of_str ''8192'' = Inr 8192"
  by (simp add: int_of_str_def strip_def is_space_def parse_digits_def is_digit_def
        digit_value_def Let_def)

lemma int_of_str_wide: "int_of_str ''18014398509481986'' = Inr 18014398509481986"
  by (simp add: int_of_str_def strip_def is_space_def parse_digits_def is_digit_def
        digit_value_def Let_def)

lemma bit_length_wide: "bit_length 18014398509481986 = 55"
  by (simp add: bit_length.simps)

lemma bit_length_two: "bit_length 2 = 2"
  by (simp add: bit_length.simps)

lemma nat_truediv_wide: "nat_truediv 18014398509481986 2 = Inr 9007199254740992"
  by (simp add: nat_truediv_def bit_length_wide bit_length_two pow2_def round_half_even_def
        Let_def floor_rat_numeral)

lemma scaled_wide: "scaled 18014398509481986 4 = Inr 9007199254740992"
  by (simp add: scaled_def int_truediv_def nat_truediv_wide and_then_def int_of_float_def)

section \<open>Output size and grid size\<close>

text \<open>
  C1. When the metadata's \<open>image_width\<close> and \<open>image_height\<close> coerce to integers from 0 up to
  but not including \<open>2^53\<close> and \<open>zoom_factor\<close> is 1, 2, 3 or 4, the output width and height
  are the floors of the original ones divided by \<open>2^(5 - zoom_factor)\<close>, \<open>num_columns\<close> is
  the ceiling of the output width over 512, and \<open>num_rows\<close> is the ceiling of the output
  height over 512, plus one exactly when \<open>zoom_factor\<close> is 2.
\<close>

theorem output_and_grid_sizes:
  assumes ow: "original_width w s = (Inr ow, s1)"
    and oh: "original_height w s = (Inr oh, s2)"
    and zf: "zoom_factor (fst s) \<in> {1, 2, 3, 4}"
    and bounds: "0 \<le> ow" "ow < 2 ^ 53" "0 \<le> oh" "oh < 2 ^ 53"
  shows "fst (output_width w s) = Inr \<lfloor>real_of_int ow / 2 ^ nat (5 - zoom_factor (fst s))\<rfloor>
     \<and> fst (output_height w s) = Inr \<lfloor>real_of_int oh / 2 ^ nat (5 - zoom_factor (fst s))\<rfloor>
     \<and> fst (num_columns w s) =
         Inr \<lceil>real_of_int \<lfloor>real_of_int ow / 2 ^ nat (5 - zoom_factor (fst s))\<rfloor> / 512\<rceil>
     \<and> fst (num_rows w s) =
         Inr (\<lceil>real_of_int \<lfloor>real_of_int oh / 2 ^ nat (5 - zoom_factor (fst s))\<rfloor> / 512\<rceil>
              + (if zoom_factor (fst s) = 2 then 1 else 0))"
proof -
  define z where "z = zoom_factor (fst s)"
  define k where "k = nat (5 - z)"
  from zf have zr: "0 < z" "z < 6" by (auto simp: z_def)
  obtain r s' where m: "metadata w s = (r, s')" by (cases "metadata w s")
  from metadata_zoom [OF m] have z': "zoom_factor (fst s') = z" by (simp add: z_def)
  from ow m obtain md where r: "r = Inr md" and w_md: "image_width_of md = Inr ow"
    by (auto simp: original_width_eq split: sum.splits)
  from oh m r have h_md: "image_height_of md = Inr oh"
    by (auto simp: original_height_eq split: sum.splits)
  have fl: "\<lfloor>real_of_int a / 2 ^ k\<rfloor> = a div 2 ^ k" for a
    using floor_divide_of_int_eq [of a "2 ^ k", where ?'a = real] by simp
  have cl: "\<lceil>(of_int a :: rat) / 512\<rceil> = \<lceil>real_of_int a / 512\<rceil>" for a
    using ceiling_divide_eq_div [of a 512, where ?'a = rat] ceiling_divide_eq_div [of a 512, where ?'a = real]
    by simp
  have small: "0 \<le> a div 2 ^ k \<and> a div 2 ^ k < 2 ^ 53" if "0 \<le> a" "a < 2 ^ 53" for a :: int
  proof -
    have "a div 2 ^ k \<le> a" using that int_div_le_self [of a "2 ^ k"] by (cases "a = 0") simp_all
    with that show ?thesis by (simp add: pos_imp_zdiv_nonneg_iff)
  qed
  have sw: "scaled ow z = Inr (ow div 2 ^ k)" unfolding k_def using bounds zr by (intro scaled_exact)
  have sh: "scaled oh z = Inr (oh div 2 ^ k)" unfolding k_def using bounds zr by (intro scaled_exact)
  have tw: "tiles_across (ow div 2 ^ k) = Inr \<lceil>real_of_int (ow div 2 ^ k) / 512\<rceil>"
    using small [OF bounds(1,2)] by (simp add: tiles_across_exact cl)
  have th: "tiles_across (oh div 2 ^ k) = Inr \<lceil>real_of_int (oh div 2 ^ k) / 512\<rceil>"
    using small [OF bounds(3,4)] by (simp add: tiles_across_exact cl)
  have "fst (output_width w s) = Inr (ow div 2 ^ k)"
    using m r z' w_md sw by (simp add: output_width_eq output_width_of_def and_then_def)
  moreover have "fst (output_height w s) = Inr (oh div 2 ^ k)"
    using m r z' h_md sh by (simp add: output_height_eq output_height_of_def and_then_def)
  moreover have "fst (num_columns w s) = Inr \<lceil>real_of_int (ow div 2 ^ k) / 512\<rceil>"
    using m r z' w_md sw tw
    by (simp add: num_columns_eq num_columns_of_def output_width_of_def and_then_def)
  moreover have "fst (num_rows w s) =
      Inr (\<lceil>real_of_int (oh div 2 ^ k) / 512\<rceil> + (if z = 2 then 1 else 0))"
    using m r z' h_md sh th
    by (simp add: num_rows_eq num_rows_of_def output_height_of_def and_then_def)
  ultimately show ?thesis unfolding fl z_def [symmetric] k_def [symmetric] by simp
qed

theorem output_and_grid_sizes_witness:
  "fst (original_width (tile_world (example_metadata ''16384'' ''8192'') 200) (new_session 2, []))
     = Inr 16384
   \<and> fst (output_width (tile_world (example_metadata ''16384'' ''8192'') 200) (new_session 2, []))
     = Inr 2048
   \<and> fst (output_height (tile_world (example_metadata ''16384'' ''8192'') 200) (new_session 2, []))
     = Inr 1024
   \<and> fst (num_columns (tile_world (example_metadata ''16384'' ''8192'') 200) (new_session 2, []))
     = Inr 4
   \<and> fst (num_rows (tile_world (example_metadata ''16384'' ''8192'') 200) (new_session 2, []))
     = Inr 3"
proof -
  let ?w = "tile_world (example_metadata ''16384'' ''8192'') 200"
  let ?s = "(new_session 2, [])"
  obtain s1 where ow: "original_width ?w ?s = (Inr 16384, s1)"
    unfolding original_width_eq metadata_tile_world
    by (simp add: image_width_of_def example_metadata_def and_then_def int_of_str_16384)
  obtain s2 where oh: "original_height ?w ?s = (Inr 8192, s2)"
    unfolding original_height_eq metadata_tile_world
    by (simp add: image_height_of_def example_metadata_def and_then_def int_of_str_8192)
  have zf: "zoom_factor (fst ?s) \<in> {1, 2, 3, 4}" by (simp add: new_session_def)
  from output_and_grid_sizes [OF ow oh zf] ow show ?thesis by (simp add: new_session_def)
qed

text \<open>
  Beyond \<open>2^53\<close> the float quotient is rounded: with \<open>image_width = 2^54 + 2\<close> and
  \<open>zoom_factor = 4\<close> the exact half \<open>2^53 + 1\<close> is not a float, and the output width is
  \<open>2^53\<close>.
\<close>

theorem output_width_counterexample:
  "fst (original_width (tile_world (example_metadata ''18014398509481986'' ''8192'') 200)
          (new_session 4, [])) = Inr 18014398509481986
   \<and> fst (output_width (tile_world (example_metadata ''18014398509481986'' ''8192'') 200)
          (new_session 4, [])) = Inr 9007199254740992
   \<and> fst (output_width (tile_world (example_metadata ''18014398509481986'' ''8192'') 200)
          (new_session 4, []))
       \<noteq> Inr \<lfloor>real_of_int 18014398509481986 / 2 ^ nat (5 - 4)\<rfloor>"
  unfolding original_width_eq output_width_eq metadata_tile_world
  by (simp add: image_width_of_def output_width_of_def example_metadata_def and_then_def
        int_of_str_wide scaled_wide new_session_def)

section \<open>Concatenation\<close>

lemma get_concat_h_size [simp]:
  "width (get_concat_h im1 im2) = width im1 + width im2"
  "height (get_concat_h im1 im2) = height im1"
  "mode (get_concat_h im1 im2) = ''RGB''"
  by (simp_all add: get_concat_h_def paste_def Image_new_def Let_def)

lemma get_concat_v_size [simp]:
  "width (get_concat_v im1 im2) = width im1"
  "height (get_concat_v im1 im2) = height im1 + height im2"
  "mode (get_concat_v im1 im2) = ''RGB''"
  by (simp_all add: get_concat_v_def paste_def Image_new_def Let_def)

lemma get_concat_h_pixel:
  "pixel (get_concat_h im1 im2) =
     (\<lambda>x y. if width im1 \<le> x \<and> x < width im1 + width im2 \<and> y < height im2 \<and> y < height im1
            then pixel im2 (x - width im1) y
            else if x < width im1 \<and> y < height im1 then pixel im1 x y
            else (0, 0, 0))"
  by (auto simp: get_concat_h_def paste_def Image_new_def Let_def fun_eq_iff)

lemma get_concat_v_pixel:
  "pixel (get_concat_v im1 im2) =
     (\<lambda>x y. if height im1 \<le> y \<and> y < height im1 + height im2 \<and> x < width im2 \<and> x < width im1
            then pixel im2 x (y - height im1)
            else if x < width im1 \<and> y < height im1 then pixel im1 x y
            else (0, 0, 0))"
  by (auto simp: get_concat_v_def paste_def Image_new_def Let_def fun_eq_iff)

text \<open>
  C9. For all images, whether or not their dimensions agree, \<open>get_concat_h\<close> returns an RGB
  image as wide as both together and exactly as high as the first: the rows of the second
  beyond that height are dropped, and where the second is shorter the background stays.
  \<open>get_concat_v\<close> returns an RGB image exactly as wide as the first and as high as both
  together. Both are total: there is no exception to raise on a mismatch.
\<close>

theorem concat_any_sizes:
  "mode (get_concat_h im1 im2) = ''RGB''
   \<and> width (get_concat_h im1 im2) = width im1 + width im2
   \<and> height (get_concat_h im1 im2) = height im1
   \<and> pixel (get_concat_h im1 im2) =
       (\<lambda>x y. if width im1 \<le> x \<and> x < width im1 + width im2 \<and> y < height im2 \<and> y < height im1
              then pixel im2 (x - width im1) y
              else if x < width im1 \<and> y < height im1 then pixel im1 x y
              else (0, 0, 0))
   \<and> mode (get_concat_v im1 im2) = ''RGB''
   \<and> width (get_concat_v im1 im2) = width im1
   \<and> height (get_concat_v im1 im2) = height im1 + height im2
   \<and> pixel (get_concat_v im1 im2) =
       (\<lambda>x y. if height im1 \<le> y \<and> y < height im1 + height im2 \<and> x < width im2 \<and> x < width im1
              then pixel im2 x (y - height im1)
              else if x < width im1 \<and> y < height im1 then pixel im1 x y
              else (0, 0, 0))"
  using get_concat_h_pixel [of im1 im2] get_concat_v_pixel [of im1 im2] by simp

text \<open>
  C3, as the code has it. Concatenating images of differing heights side by side does not
  fail: the result has the first image's height, and the second image appears in it cut
  to that height or with black below it. Stacking images of differing widths does not
  fail either: the result has the first image's width, the second cut to it or with
  black to its right.
\<close>

theorem concat_mismatch_crops:
  "(height im1 \<noteq> height im2 \<longrightarrow>
      width (get_concat_h im1 im2) = width im1 + width im2
      \<and> height (get_concat_h im1 im2) = height im1
      \<and> (\<forall>x y. x < width im2 \<and> y < height im1 \<longrightarrow>
            pixel (get_concat_h im1 im2) (width im1 + x) y =
              (if y < height im2 then pixel im2 x y else (0, 0, 0))))
   \<and> (width im1 \<noteq> width im2 \<longrightarrow>
      width (get_concat_v im1 im2) = width im1
      \<and> height (get_concat_v im1 im2) = height im1 + height im2
      \<and> (\<forall>x y. x < width im1 \<and> y < height im2 \<longrightarrow>
            pixel (get_concat_v im1 im2) x (height im1 + y) =
              (if x < width im2 then pixel im2 x y else (0, 0, 0))))"
  by (simp add: get_concat_h_pixel get_concat_v_pixel)

theorem concat_mismatch_crops_witness:
  "height white_block \<noteq> height black_pixel
   \<and> width white_block \<noteq> width black_pixel
   \<and> height (get_concat_h white_block black_pixel) = 2
   \<and> pixel (get_concat_h white_block black_pixel) 2 1 = (0, 0, 0)
   \<and> width (get_concat_v white_block black_pixel) = 2
   \<and> pixel (get_concat_v white_block black_pixel) 1 2 = (0, 0, 0)"
proof -
  have h: "height white_block \<noteq> height black_pixel" "width white_block \<noteq> width black_pixel"
    by (simp_all add: white_block_def black_pixel_def Image_new_def)
  have b: "(0::nat) < width black_pixel \<and> (1::nat) < height white_block"
    "(1::nat) < width white_block \<and> (0::nat) < height black_pixel"
    by (simp_all add: white_block_def black_pixel_def Image_new_def)
  from concat_mismatch_crops [of white_block black_pixel] h b
  show ?thesis
    by (auto simp: white_block_def black_pixel_def Image_new_def dest!: spec [of _ "0::nat"])
qed

text \<open>
  The claim itself fails: a 1 by 1 image and a 2 by 2 image, side by side or stacked, give
  an image, 3 by 1 or 1 by 3, and no error.
\<close>

theorem concat_mismatch_counterexample:
  "height black_pixel \<noteq> height white_block
   \<and> width (get_concat_h black_pixel white_block) = 3
   \<and> height (get_concat_h black_pixel white_block) = 1
   \<and> width black_pixel \<noteq> width white_block
   \<and> width (get_concat_v black_pixel white_block) = 1
   \<and> height (get_concat_v black_pixel white_block) = 3"
  by (simp add: black_pixel_def white_block_def Image_new_def)

lemma foldl_concat_h_size:
  "height (foldl get_concat_h t ts) = height t
   \<and> width (foldl get_concat_h t ts) = width t + sum_list (map width ts)"
  by (induction ts arbitrary: t) simp_all

lemma foldl_concat_v_size:
  "width (foldl get_concat_v t ts) = width t
   \<and> height (foldl get_concat_v t ts) = height t + sum_list (map height ts)"
  by (induction ts arbitrary: t) simp_all

text \<open>
  C7. Folding one or more tiles, all of height \<open>H\<close>, from the left with \<open>get_concat_h\<close> gives
  an image of height \<open>H\<close> whose width is the sum of the tiles' widths; folding one or more
  rows, all of width \<open>W\<close>, with \<open>get_concat_v\<close> gives an image of width \<open>W\<close> whose height is
  the sum of the rows' heights.
\<close>

theorem fold_concat_sizes:
  assumes "\<forall>t \<in> set (t0 # ts). height t = H"
    and "\<forall>r \<in> set (r0 # rs). width r = W"
  shows "height (foldl get_concat_h t0 ts) = H
     \<and> width (foldl get_concat_h t0 ts) = sum_list (map width (t0 # ts))
     \<and> width (foldl get_concat_v r0 rs) = W
     \<and> height (foldl get_concat_v r0 rs) = sum_list (map height (r0 # rs))"
  using assms foldl_concat_h_size [of t0 ts] foldl_concat_v_size [of r0 rs] by simp

theorem fold_concat_sizes_witness:
  "height (foldl get_concat_h black_pixel [black_pixel, black_pixel]) = 1
   \<and> width (foldl get_concat_h black_pixel [black_pixel, black_pixel]) = 3
   \<and> width (foldl get_concat_v white_block [white_block]) = 2
   \<and> height (foldl get_concat_v white_block [white_block]) = 4"
proof -
  have a: "\<forall>t \<in> set (black_pixel # [black_pixel, black_pixel]). height t = 1"
    by (simp add: black_pixel_def Image_new_def)
  have b: "\<forall>r \<in> set (white_block # [white_block]). width r = 2"
    by (simp add: white_block_def)
  from fold_concat_sizes [OF a b] show ?thesis
    by (simp add: black_pixel_def white_block_def Image_new_def)
qed

section \<open>Construction\<close>

lemma init_rejects:
  "zf \<le> 0 \<or> 6 \<le> zf \<Longrightarrow> StreetView_init lat lon zf tr = (Inl AssertionError, tr)"
  by (auto simp: StreetView_init_def)

lemma init_trace: "snd (StreetView_init lat lon zf tr) = tr"
  by (simp add: StreetView_init_def)

text \<open>
  C4. The claim wants \<open>zoom_factor = 5\<close> rejected; the assertion is \<open>zoom_factor < 6\<close>, and
  the session is built.
\<close>

theorem init_accepts_zoom_five:
  "StreetView_init lat lon 5 tr =
     (Inr \<lparr>latitude = lat, longitude = lon, priv_num_columns = 0, priv_num_rows = 0,
           priv_metadata = None, priv_meta_url = None, zoom_factor = 5\<rparr>, tr)"
  by (simp add: StreetView_init_def)

section \<open>The metadata cache\<close>

lemma read_cached:
  "priv_metadata ss = Some (JObj kvs) \<Longrightarrow>
     read w a (ss, tr) = (value_of a (JObj kvs) (zoom_factor ss), ss, tr)"
  by (simp add: read_eq metadata_cached)

lemma reads_cached:
  "priv_metadata ss = Some (JObj kvs) \<Longrightarrow>
     reads w as (ss, tr) = (map (\<lambda>a. value_of a (JObj kvs) (zoom_factor ss)) as, ss, tr)"
  by (induction as) (simp_all add: read_cached)

lemma read_fetch:
  assumes "\<not> is_dict (priv_metadata ss)"
  shows "\<exists>r ss'. read w a (ss, tr) =
            (r, ss', tr @ [Print (Url (fetched_url ss)),
                           Get (fetched_url ss) (net w (tr @ [Print (Url (fetched_url ss))]) (fetched_url ss))])
          \<and> (\<forall>resp j. net w (tr @ [Print (Url (fetched_url ss))]) (fetched_url ss) = Some resp
                \<and> as_json (content resp) = Some j \<longrightarrow> priv_metadata ss' = Some j)"
  unfolding read_eq metadata_fetch [OF assms]
  by (auto simp: Let_def split: option.splits)

text \<open>
  C8, as the code has it. Once the cache holds a JSON object, reading accessors any
  number of times issues no request and changes nothing, and each value is a function of
  the cached metadata and the zoom factor. Until then every read issues one metadata
  request, and a body that parses is stored.
\<close>

theorem metadata_fetched_until_cached:
  "(priv_metadata ss = Some (JObj kvs) \<longrightarrow>
      reads w as (ss, tr) = (map (\<lambda>a. value_of a (JObj kvs) (zoom_factor ss)) as, ss, tr))
   \<and> (\<not> is_dict (priv_metadata ss) \<longrightarrow>
      (\<exists>r ss'. read w a (ss, tr) =
            (r, ss', tr @ [Print (Url (fetched_url ss)),
                           Get (fetched_url ss) (net w (tr @ [Print (Url (fetched_url ss))]) (fetched_url ss))])
          \<and> (\<forall>resp j. net w (tr @ [Print (Url (fetched_url ss))]) (fetched_url ss) = Some resp
                \<and> as_json (content resp) = Some j \<longrightarrow> priv_metadata ss' = Some j)))"
  using reads_cached [of ss kvs w as tr] read_fetch [of ss w a tr] by blast

end
